theory Spec2Isabelle
  imports Main
begin

section \<open>Data model of \<open>app.py\<close>\<close>

text \<open>
  Exceptions that travel through the handlers. \<open>HTTPException status detail\<close> is the
  FastAPI exception the handlers raise themselves; \<open>LibraryError\<close> stands for any other
  Python exception (raised by qiskit, matplotlib or the interpreter).
\<close>

datatype exn = HTTPException int string | LibraryError string

text \<open>
  An entry of \<open>circuit_state["gates"]\<close> is a Python tuple whose first component is the
  gate name: \<open>("H", 0)\<close>, \<open>("CX", 0, 1)\<close>, \<open>("Measure", "All")\<close>, \<open>("H", [0, 1])\<close>.
  The remaining components are qubit indices, lists of indices or strings (\<open>PyNone\<close>
  is Python's \<open>None\<close>, the value of an absent request field).
\<close>

datatype arg = Q int | QS "int list" | S string | PyNone

type_synonym gate = "string \<times> arg list"

text \<open>The global dictionary \<open>circuit_state\<close>; \<open>'qc\<close> is the library's circuit object.\<close>

record 'qc circuit_state =
  circuit :: "'qc option"
  gates :: "gate list"
  qubits :: int

definition initial_state :: "'qc circuit_state" where
  "initial_state = \<lparr>circuit = None, gates = [], qubits = 2\<rparr>"

text \<open>The request model \<open>GateRequest\<close> (its field \<open>qubits\<close> is \<open>req_qubits\<close> here).\<close>

record GateRequest =
  gate_type :: string
  target_qubit :: "int option"
  control_qubit :: "int option"
  req_qubits :: int

text \<open>The JSON bodies the handlers return.\<close>

datatype response =
    GatesImage "gate list" "string option"
  | SimImages string string

text \<open>
  The external libraries are not part of the program. Every call the handlers make into
  them is a field of the record below; each call may raise. A call that mutates the
  circuit object in place returns the mutated object, and a call that raises is taken
  to leave the object as it was.

  \<^item> \<open>lib_QuantumCircuit n m\<close> is \<open>QuantumCircuit(n, m)\<close>, \<open>lib_QuantumCircuit1 n\<close> is
    \<open>QuantumCircuit(n)\<close>;
  \<^item> \<open>lib_h\<close>, \<open>lib_x\<close>, \<open>lib_cx\<close>, \<open>lib_cz\<close>, \<open>lib_measure\<close>, \<open>lib_h_list\<close>, \<open>lib_append\<close>
    are the methods of the circuit object, \<open>lib_GroverOperator\<close> the operator constructor;
    \<open>lib_h\<close>, \<open>lib_x\<close>, \<open>lib_cx\<close> and \<open>lib_cz\<close> receive the request's optional fields as
    they are;
  \<^item> \<open>lib_run c shots\<close> is \<open>AerSimulator().run(c, shots=shots).result().get_counts(c)\<close>;
  \<^item> \<open>lib_draw\<close> and \<open>lib_plot_histogram\<close> are the plotting, saving and base64 encoding
    done inside \<open>circuit_to_base64\<close>;
  \<^item> \<open>lib_str\<close> is Python's \<open>str\<close> on an exception.
\<close>

record ('qc, 'op, 'cnt) library =
  lib_QuantumCircuit :: "int \<Rightarrow> int \<Rightarrow> exn + 'qc"
  lib_QuantumCircuit1 :: "int \<Rightarrow> exn + 'qc"
  lib_h :: "'qc \<Rightarrow> int option \<Rightarrow> exn + 'qc"
  lib_x :: "'qc \<Rightarrow> int option \<Rightarrow> exn + 'qc"
  lib_cx :: "'qc \<Rightarrow> int option \<Rightarrow> int option \<Rightarrow> exn + 'qc"
  lib_cz :: "'qc \<Rightarrow> int option \<Rightarrow> int option \<Rightarrow> exn + 'qc"
  lib_measure :: "'qc \<Rightarrow> int list \<Rightarrow> int list \<Rightarrow> exn + 'qc"
  lib_h_list :: "'qc \<Rightarrow> int list \<Rightarrow> exn + 'qc"
  lib_GroverOperator :: "'qc \<Rightarrow> exn + 'op"
  lib_append :: "'qc \<Rightarrow> 'op \<Rightarrow> int list \<Rightarrow> exn + 'qc"
  lib_run :: "'qc \<Rightarrow> int \<Rightarrow> exn + 'cnt"
  lib_draw :: "'qc \<Rightarrow> exn + string"
  lib_plot_histogram :: "'cnt \<Rightarrow> exn + string"
  lib_str :: "exn \<Rightarrow> string"

section \<open>Helpers shared by the handlers\<close>

text \<open>Python's \<open>range(n)\<close> as a list: \<open>0, 1, ..., n - 1\<close>, empty when \<open>n \<le> 0\<close>.\<close>

definition range_py :: "int \<Rightarrow> int list" where
  "range_py n = [0..n - 1]"

text \<open>
  Every handler ends in
  \<^verbatim>\<open>except Exception as e: raise HTTPException(status_code=500, detail=f"<prefix>{str(e)}")\<close>.
  \<open>HTTPException\<close> is itself an \<open>Exception\<close>, so the clause also catches the handler's
  own status-400 exceptions.
\<close>

definition except_500 :: "(exn \<Rightarrow> string) \<Rightarrow> string \<Rightarrow> exn + 'a \<Rightarrow> exn + 'a" where
  "except_500 str prefix r =
     (case r of Inl e \<Rightarrow> Inl (HTTPException 500 (prefix @ str e)) | Inr v \<Rightarrow> Inr v)"

text \<open>\<open>circuit_to_base64(circuit, is_histogram)\<close>: the flag is the constructor.\<close>

datatype ('qc, 'cnt) plottable = Circuit 'qc | Counts 'cnt

fun circuit_to_base64 ::
  "('qc, 'op, 'cnt) library \<Rightarrow> ('qc, 'cnt) plottable \<Rightarrow> exn + string" where
  "circuit_to_base64 lib (Counts k) =
     except_500 (lib_str lib) ''Failed to generate image: '' (lib_plot_histogram lib k)"
| "circuit_to_base64 lib (Circuit c) =
     except_500 (lib_str lib) ''Failed to generate image: '' (lib_draw lib c)"

section \<open>\<open>reset_circuit\<close>\<close>

definition reset_circuit_try ::
  "('qc, 'op, 'cnt) library \<Rightarrow> 'qc circuit_state \<Rightarrow> int
     \<Rightarrow> (exn + response) \<times> 'qc circuit_state" where
  "reset_circuit_try lib s n =
     (if \<not> (1 \<le> n \<and> n \<le> 5)
      then (Inl (HTTPException 400 ''Qubits must be between 1 and 5''), s)
      else
        (case lib_QuantumCircuit lib n n of
           Inl e \<Rightarrow> (Inl e, s\<lparr>qubits := n\<rparr>)
         | Inr c \<Rightarrow>
             (Inr (GatesImage [] None), s\<lparr>qubits := n, circuit := Some c, gates := []\<rparr>)))"

definition reset_circuit ::
  "('qc, 'op, 'cnt) library \<Rightarrow> 'qc circuit_state \<Rightarrow> int
     \<Rightarrow> (exn + response) \<times> 'qc circuit_state" where
  "reset_circuit lib s n =
     (case reset_circuit_try lib s n of
        (r, s') \<Rightarrow> (except_500 (lib_str lib) ''Failed to reset circuit: '' r, s'))"

section \<open>\<open>add_gate\<close>\<close>

text \<open>Lines 114 to 117: the circuit is created anew when none exists or the sizes differ.\<close>

definition ensure_circuit ::
  "('qc, 'op, 'cnt) library \<Rightarrow> 'qc circuit_state \<Rightarrow> GateRequest
     \<Rightarrow> (exn + unit) \<times> 'qc circuit_state" where
  "ensure_circuit lib s r =
     (if circuit s = None \<or> qubits s \<noteq> req_qubits r
      then
        (case lib_QuantumCircuit lib (req_qubits r) (req_qubits r) of
           Inl e \<Rightarrow> (Inl e, s\<lparr>qubits := req_qubits r\<rparr>)
         | Inr c \<Rightarrow> (Inr (), s\<lparr>qubits := req_qubits r, circuit := Some c, gates := []\<rparr>))
      else (Inr (), s))"

text \<open>Lines 119 to 129: the checks on the request.\<close>

definition validate_gate :: "GateRequest \<Rightarrow> exn + unit" where
  "validate_gate r =
     (if gate_type r \<notin> set [''H (Hadamard)'', ''X (Pauli-X)'', ''CX (CNOT)'',
                             ''CZ (Controlled-Z)'', ''Measure'']
      then Inl (HTTPException 400 ''Invalid gate type'')
      else if gate_type r \<noteq> ''Measure'' then
        (if (case target_qubit r of None \<Rightarrow> True
             | Some t \<Rightarrow> \<not> (0 \<le> t \<and> t < req_qubits r))
         then Inl (HTTPException 400 ''Invalid target qubit'')
         else if gate_type r \<in> set [''CX (CNOT)'', ''CZ (Controlled-Z)''] then
           (if (case control_qubit r of None \<Rightarrow> True
                | Some c \<Rightarrow> \<not> (0 \<le> c \<and> c < req_qubits r))
            then Inl (HTTPException 400 ''Invalid control qubit'')
            else if control_qubit r = target_qubit r
            then Inl (HTTPException 400 ''Control and target qubits must be different'')
            else Inr ())
         else Inr ())
      else Inr ())"

text \<open>
  Lines 131 to 145: the library call, then the entry appended to \<open>gates\<close>. A request
  field is stored in the tuple as it is; validation has excluded \<open>None\<close> for every field
  that is used here.
\<close>

definition field_arg :: "int option \<Rightarrow> arg" where
  "field_arg v = (case v of None \<Rightarrow> PyNone | Some i \<Rightarrow> Q i)"

definition appended ::
  "'qc circuit_state \<Rightarrow> exn + 'qc \<Rightarrow> gate \<Rightarrow> (exn + unit) \<times> 'qc circuit_state" where
  "appended s call g =
     (case call of
        Inl e \<Rightarrow> (Inl e, s)
      | Inr c' \<Rightarrow> (Inr (), s\<lparr>circuit := Some c', gates := gates s @ [g]\<rparr>))"

definition apply_gate ::
  "('qc, 'op, 'cnt) library \<Rightarrow> 'qc circuit_state \<Rightarrow> GateRequest
     \<Rightarrow> (exn + unit) \<times> 'qc circuit_state" where
  "apply_gate lib s r =
     (case circuit s of
        None \<Rightarrow> (Inl (LibraryError ''AttributeError''), s)
      | Some c \<Rightarrow>
          (if gate_type r = ''H (Hadamard)'' then
             appended s (lib_h lib c (target_qubit r)) (''H'', [field_arg (target_qubit r)])
           else if gate_type r = ''X (Pauli-X)'' then
             appended s (lib_x lib c (target_qubit r)) (''X'', [field_arg (target_qubit r)])
           else if gate_type r = ''CX (CNOT)'' then
             appended s (lib_cx lib c (control_qubit r) (target_qubit r))
               (''CX'', [field_arg (control_qubit r), field_arg (target_qubit r)])
           else if gate_type r = ''CZ (Controlled-Z)'' then
             appended s (lib_cz lib c (control_qubit r) (target_qubit r))
               (''CZ'', [field_arg (control_qubit r), field_arg (target_qubit r)])
           else if gate_type r = ''Measure'' then
             appended s (lib_measure lib c (range_py (req_qubits r)) (range_py (req_qubits r)))
               (''Measure'', [S ''All''])
           else (Inr (), s)))"

text \<open>
  Lines 147 to 149 (and 103 to 105 of \<open>load_example\<close>): the drawing of the circuit and
  the response.
\<close>

definition render_gates ::
  "('qc, 'op, 'cnt) library \<Rightarrow> 'qc circuit_state \<Rightarrow> (exn + response) \<times> 'qc circuit_state" where
  "render_gates lib s =
     (case circuit s of
        None \<Rightarrow> (Inl (HTTPException 500 (''Failed to generate image: '' @
                   lib_str lib (LibraryError ''AttributeError''))), s)
      | Some c \<Rightarrow>
          (case circuit_to_base64 lib (Circuit c) of
             Inl e \<Rightarrow> (Inl e, s)
           | Inr img \<Rightarrow> (Inr (GatesImage (gates s) (Some img)), s)))"

definition add_gate_try ::
  "('qc, 'op, 'cnt) library \<Rightarrow> 'qc circuit_state \<Rightarrow> GateRequest
     \<Rightarrow> (exn + response) \<times> 'qc circuit_state" where
  "add_gate_try lib s r =
     (case ensure_circuit lib s r of
        (Inl e, s1) \<Rightarrow> (Inl e, s1)
      | (Inr _, s1) \<Rightarrow>
          (case validate_gate r of
             Inl e \<Rightarrow> (Inl e, s1)
           | Inr _ \<Rightarrow>
               (case apply_gate lib s1 r of
                  (Inl e, s2) \<Rightarrow> (Inl e, s2)
                | (Inr _, s2) \<Rightarrow> render_gates lib s2)))"

definition add_gate ::
  "('qc, 'op, 'cnt) library \<Rightarrow> 'qc circuit_state \<Rightarrow> GateRequest
     \<Rightarrow> (exn + response) \<times> 'qc circuit_state" where
  "add_gate lib s r =
     (case add_gate_try lib s r of
        (res, s') \<Rightarrow> (except_500 (lib_str lib) ''Failed to add gate: '' res, s'))"

section \<open>\<open>load_example\<close>\<close>

text \<open>Lines 85 to 90: the Bell state example on a fresh circuit.\<close>

definition bell_example ::
  "('qc, 'op, 'cnt) library \<Rightarrow> 'qc circuit_state \<Rightarrow> 'qc \<Rightarrow> int
     \<Rightarrow> (exn + unit) \<times> 'qc circuit_state" where
  "bell_example lib s c n =
     (if n < 2
      then (Inl (HTTPException 400 ''Bell State requires at least 2 qubits''), s)
      else
        (case lib_h lib c (Some 0) of
           Inl e \<Rightarrow> (Inl e, s)
         | Inr c1 \<Rightarrow>
             (case lib_cx lib c1 (Some 0) (Some 1) of
                Inl e \<Rightarrow> (Inl e, s\<lparr>circuit := Some c1\<rparr>)
              | Inr c2 \<Rightarrow>
                  (Inr (), s\<lparr>circuit := Some c2,
                              gates := [(''H'', [Q 0]), (''CX'', [Q 0, Q 1])]\<rparr>))))"

text \<open>Lines 91 to 99: the Grover example, for exactly two qubits.\<close>

definition grover_example ::
  "('qc, 'op, 'cnt) library \<Rightarrow> 'qc circuit_state \<Rightarrow> 'qc \<Rightarrow> int
     \<Rightarrow> (exn + unit) \<times> 'qc circuit_state" where
  "grover_example lib s c n =
     (if n \<noteq> 2
      then (Inl (HTTPException 400 ''Grover's example requires exactly 2 qubits''), s)
      else
        (case lib_QuantumCircuit1 lib 2 of
           Inl e \<Rightarrow> (Inl e, s)
         | Inr oracle0 \<Rightarrow>
        (case lib_cz lib oracle0 (Some 0) (Some 1) of
           Inl e \<Rightarrow> (Inl e, s)
         | Inr oracle \<Rightarrow>
        (case lib_GroverOperator lib oracle of
           Inl e \<Rightarrow> (Inl e, s)
         | Inr grover_op \<Rightarrow>
        (case lib_h_list lib c [0, 1] of
           Inl e \<Rightarrow> (Inl e, s)
         | Inr c1 \<Rightarrow>
        (case lib_append lib c1 grover_op [0, 1] of
           Inl e \<Rightarrow> (Inl e, s\<lparr>circuit := Some c1\<rparr>)
         | Inr c2 \<Rightarrow>
             (Inr (), s\<lparr>circuit := Some c2,
                         gates := [(''H'', [QS [0, 1]]),
                                   (''Grover Operator'', [QS [0, 1]])]\<rparr>)))))))"

definition load_example_try ::
  "('qc, 'op, 'cnt) library \<Rightarrow> 'qc circuit_state \<Rightarrow> string \<Rightarrow> int
     \<Rightarrow> (exn + response) \<times> 'qc circuit_state" where
  "load_example_try lib s example n =
     (if \<not> (1 \<le> n \<and> n \<le> 5)
      then (Inl (HTTPException 400 ''Qubits must be between 1 and 5''), s)
      else
        (case lib_QuantumCircuit lib n n of
           Inl e \<Rightarrow> (Inl e, s\<lparr>qubits := n\<rparr>)
         | Inr c \<Rightarrow>
             (let s1 = s\<lparr>qubits := n, circuit := Some c, gates := []\<rparr> in
              (case (if example = ''Bell State (Entanglement)'' then bell_example lib s1 c n
                     else if example = ''Grover's Algorithm (2-Qubit Search)''
                     then grover_example lib s1 c n
                     else (Inl (HTTPException 400 ''Invalid example''), s1)) of
                 (Inl e, s2) \<Rightarrow> (Inl e, s2)
               | (Inr _, s2) \<Rightarrow> render_gates lib s2))))"

definition load_example ::
  "('qc, 'op, 'cnt) library \<Rightarrow> 'qc circuit_state \<Rightarrow> string \<Rightarrow> int
     \<Rightarrow> (exn + response) \<times> 'qc circuit_state" where
  "load_example lib s example n =
     (case load_example_try lib s example n of
        (res, s') \<Rightarrow> (except_500 (lib_str lib) ''Failed to load example: '' res, s'))"

section \<open>\<open>simulate_circuit\<close>\<close>

text \<open>Lines 162 to 165: the measurement added when the gate names hold no \<open>Measure\<close>.\<close>

definition add_measurement ::
  "('qc, 'op, 'cnt) library \<Rightarrow> 'qc circuit_state \<Rightarrow> 'qc
     \<Rightarrow> (exn + 'qc) \<times> 'qc circuit_state" where
  "add_measurement lib s c =
     (if ''Measure'' \<notin> set (map fst (gates s))
      then
        (case lib_measure lib c (range_py (qubits s)) (range_py (qubits s)) of
           Inl e \<Rightarrow> (Inl e, s)
         | Inr c' \<Rightarrow>
             (Inr c', s\<lparr>circuit := Some c', gates := gates s @ [(''Measure'', [S ''All''])]\<rparr>))
      else (Inr c, s))"

text \<open>Lines 167 to 175: the run of the simulator and the two images.\<close>

definition run_and_render :: "('qc, 'op, 'cnt) library \<Rightarrow> 'qc \<Rightarrow> int \<Rightarrow> exn + response" where
  "run_and_render lib c shots =
     (case lib_run lib c shots of
        Inl e \<Rightarrow> Inl e
      | Inr counts \<Rightarrow>
          (case circuit_to_base64 lib (Circuit c) of
             Inl e \<Rightarrow> Inl e
           | Inr circuit_image \<Rightarrow>
               (case circuit_to_base64 lib (Counts counts) of
                  Inl e \<Rightarrow> Inl e
                | Inr histogram_image \<Rightarrow> Inr (SimImages circuit_image histogram_image))))"

text \<open>Lines 157 and 158: the check of the shot count.\<close>

definition check_shots :: "int \<Rightarrow> exn + unit" where
  "check_shots shots =
     (if \<not> (100 \<le> shots \<and> shots \<le> 10000)
      then Inl (HTTPException 400 ''Shots must be between 100 and 10000'')
      else Inr ())"

definition simulate_circuit_try ::
  "('qc, 'op, 'cnt) library \<Rightarrow> 'qc circuit_state \<Rightarrow> int
     \<Rightarrow> (exn + response) \<times> 'qc circuit_state" where
  "simulate_circuit_try lib s shots =
     (case check_shots shots of
        Inl e \<Rightarrow> (Inl e, s)
      | Inr _ \<Rightarrow>
          (case circuit s of
             None \<Rightarrow> (Inl (HTTPException 400 ''No circuit defined''), s)
           | Some c \<Rightarrow>
               (case add_measurement lib s c of
                  (Inl e, s1) \<Rightarrow> (Inl e, s1)
                | (Inr c1, s1) \<Rightarrow> (run_and_render lib c1 shots, s1))))"

definition simulate_circuit ::
  "('qc, 'op, 'cnt) library \<Rightarrow> 'qc circuit_state \<Rightarrow> int
     \<Rightarrow> (exn + response) \<times> 'qc circuit_state" where
  "simulate_circuit lib s shots =
     (case simulate_circuit_try lib s shots of
        (res, s') \<Rightarrow> (except_500 (lib_str lib) ''Failed to simulate circuit: '' res, s'))"

section \<open>A stand-in for the external libraries\<close>

text \<open>
  The theorems on the handlers hold for every \<open>library\<close>. Concrete runs need one: the
  stand-in below keeps a circuit as its register sizes and its list of instructions,
  refuses a negative register size and a qubit index outside the register, answers the run
  of a circuit that measures some qubit with all shots on the all-zero outcome, refuses to
  give counts for a circuit that measures none, and draws every picture as a fixed string.
  It is used only to evaluate the handlers on concrete requests.
\<close>

record qcircuit =
  num_qubits :: int
  num_clbits :: int
  data :: "(string \<times> int list) list"

definition new_qcircuit :: "int \<Rightarrow> int \<Rightarrow> exn + qcircuit" where
  "new_qcircuit n m =
     (if n < 0 \<or> m < 0 then Inl (LibraryError ''CircuitError'')
      else Inr \<lparr>num_qubits = n, num_clbits = m, data = []\<rparr>)"

definition instruction :: "qcircuit \<Rightarrow> string \<Rightarrow> int list \<Rightarrow> exn + qcircuit" where
  "instruction c name qs =
     (if list_all (\<lambda>q. 0 \<le> q \<and> q < num_qubits c) qs
      then Inr (c\<lparr>data := data c @ [(name, qs)]\<rparr>)
      else Inl (LibraryError ''CircuitError''))"

definition instruction1 :: "qcircuit \<Rightarrow> string \<Rightarrow> int option \<Rightarrow> exn + qcircuit" where
  "instruction1 c name t =
     (case t of None \<Rightarrow> Inl (LibraryError ''CircuitError'')
      | Some q \<Rightarrow> instruction c name [q])"

definition instruction2 ::
  "qcircuit \<Rightarrow> string \<Rightarrow> int option \<Rightarrow> int option \<Rightarrow> exn + qcircuit" where
  "instruction2 c name k t =
     (case (k, t) of
        (Some q1, Some q2) \<Rightarrow>
          (if q1 = q2 then Inl (LibraryError ''CircuitError'') else instruction c name [q1, q2])
      | _ \<Rightarrow> Inl (LibraryError ''CircuitError''))"

text \<open>
  Python's \<open>str\<close> on an integer, and on an exception: an \<open>HTTPException\<close> prints as its
  status code, a colon and its detail; any other exception prints as its message.
\<close>

fun decimal :: "nat \<Rightarrow> string" where
  "decimal n =
     (if n < 10 then [''0123456789'' ! n]
      else decimal (n div 10) @ [''0123456789'' ! (n mod 10)])"

declare decimal.simps [simp del]

definition str_int :: "int \<Rightarrow> string" where
  "str_int i = (if i < 0 then ''-'' @ decimal (nat (- i)) else decimal (nat i))"

definition exn_text :: "exn \<Rightarrow> string" where
  "exn_text e =
     (case e of
        HTTPException status detail \<Rightarrow> str_int status @ '': '' @ detail
      | LibraryError m \<Rightarrow> m)"

definition model_lib :: "(qcircuit, qcircuit, (string \<times> int) list) library" where
  "model_lib =
     \<lparr>lib_QuantumCircuit = new_qcircuit,
      lib_QuantumCircuit1 = (\<lambda>n. new_qcircuit n 0),
      lib_h = (\<lambda>c. instruction1 c ''h''),
      lib_x = (\<lambda>c. instruction1 c ''x''),
      lib_cx = (\<lambda>c. instruction2 c ''cx''),
      lib_cz = (\<lambda>c. instruction2 c ''cz''),
      lib_measure = (\<lambda>c qs cs. instruction c ''measure'' qs),
      lib_h_list = (\<lambda>c. instruction c ''h''),
      lib_GroverOperator = Inr,
      lib_append = (\<lambda>c gop. instruction c ''Q''),
      lib_run = (\<lambda>c shots.
        if list_ex (\<lambda>i. fst i = ''measure'' \<and> snd i \<noteq> []) (data c)
        then Inr [(map (\<lambda>q. CHR ''0'') (range_py (num_clbits c)), shots)]
        else Inl (LibraryError ''QiskitError'')),
      lib_draw = (\<lambda>c. Inr ''circuit.png''),
      lib_plot_histogram = (\<lambda>k. Inr ''histogram.png''),
      lib_str = exn_text\<rparr>"

text \<open>The same library with a simulator whose run raises.\<close>

definition failing_run_lib :: "(qcircuit, qcircuit, (string \<times> int) list) library" where
  "failing_run_lib = model_lib\<lparr>lib_run := (\<lambda>c shots. Inl (LibraryError ''AerError''))\<rparr>"

section \<open>Notions used in the statements\<close>

text \<open>
  An invalid gate request in the words of the specification: an unsupported kind, a
  target index that is absent or outside \<open>[0, n)\<close> for a gate that has a target, or, for
  the two controlled gates, a control index that is absent, outside \<open>[0, n)\<close> or equal to
  the target. Here \<open>n\<close> is the qubit count the request carries.
\<close>

definition invalid_gate_request :: "GateRequest \<Rightarrow> bool" where
  "invalid_gate_request r =
     (gate_type r \<notin> {''H (Hadamard)'', ''X (Pauli-X)'', ''CX (CNOT)'', ''CZ (Controlled-Z)'',
                        ''Measure''}
      \<or> (gate_type r \<noteq> ''Measure'' \<and>
          (case target_qubit r of None \<Rightarrow> True | Some t \<Rightarrow> t < 0 \<or> req_qubits r \<le> t))
      \<or> (gate_type r \<in> {''CX (CNOT)'', ''CZ (Controlled-Z)''} \<and>
          ((case control_qubit r of None \<Rightarrow> True | Some k \<Rightarrow> k < 0 \<or> req_qubits r \<le> k)
           \<or> control_qubit r = target_qubit r)))"

text \<open>
  The four exceptions that the checks of \<open>add_gate\<close> raise.
\<close>

definition invalid_gate_errors :: "exn list" where
  "invalid_gate_errors =
     [HTTPException 400 ''Invalid gate type'',
      HTTPException 400 ''Invalid target qubit'',
      HTTPException 400 ''Invalid control qubit'',
      HTTPException 400 ''Control and target qubits must be different'']"

text \<open>
  A sequence of calls of \<open>simulate_circuit\<close>, one per shot count, on the evolving state.
\<close>

fun simulate_many ::
  "('qc, 'op, 'cnt) library \<Rightarrow> 'qc circuit_state \<Rightarrow> int list \<Rightarrow> 'qc circuit_state" where
  "simulate_many lib s [] = s"
| "simulate_many lib s (shots # rest) = simulate_many lib (snd (simulate_circuit lib s shots)) rest"

text \<open>
  The measure call that \<open>simulate_circuit\<close> makes on the stored circuit returns.
\<close>

definition measure_succeeds :: "('qc, 'op, 'cnt) library \<Rightarrow> 'qc circuit_state \<Rightarrow> bool" where
  "measure_succeeds lib s =
     (case circuit s of
        None \<Rightarrow> False
      | Some c \<Rightarrow> \<not> isl (lib_measure lib c (range_py (qubits s)) (range_py (qubits s))))"

text \<open>
  Two states of the stand-in library: after \<open>reset_circuit\<close> with two qubits, and after
  a Hadamard gate on qubit 0 has been added to it.
\<close>

definition reset_state :: "qcircuit circuit_state" where
  "reset_state =
     \<lparr>circuit = Some \<lparr>num_qubits = 2, num_clbits = 2, data = []\<rparr>, gates = [], qubits = 2\<rparr>"

definition h_state :: "qcircuit circuit_state" where
  "h_state =
     \<lparr>circuit = Some \<lparr>num_qubits = 2, num_clbits = 2, data = [(''h'', [0])]\<rparr>,
      gates = [(''H'', [Q 0])], qubits = 2\<rparr>"

text \<open>
  Two more states of the stand-in library: a measurement followed by a Hadamard gate on a
  fresh two-qubit circuit, and the state left by a request to \<open>add_gate\<close> for \<open>-1\<close> qubits
  on the circuit holding a Hadamard gate.
\<close>

definition measured_h_state :: "qcircuit circuit_state" where
  "measured_h_state =
     \<lparr>circuit = Some \<lparr>num_qubits = 2, num_clbits = 2,
                       data = [(''measure'', [0, 1]), (''h'', [0])]\<rparr>,
      gates = [(''Measure'', [S ''All'']), (''H'', [Q 0])], qubits = 2\<rparr>"

definition stale_state :: "qcircuit circuit_state" where
  "stale_state =
     \<lparr>circuit = Some \<lparr>num_qubits = 2, num_clbits = 2, data = [(''h'', [0])]\<rparr>,
      gates = [(''H'', [Q 0])], qubits = - 1\<rparr>"

section \<open>Properties of the handlers\<close>

subsection \<open>The text of an exception in the stand-in library\<close>

lemma decimal_400: "decimal 400 = ''400''"
  by code_simp

lemma decimal_500: "decimal 500 = ''500''"
  by code_simp

lemma exn_text_400: "exn_text (HTTPException 400 d) = ''400: '' @ d"
  by (simp add: exn_text_def str_int_def decimal_400)

lemma exn_text_500: "exn_text (HTTPException 500 d) = ''500: '' @ d"
  by (simp add: exn_text_def str_int_def decimal_500)

lemma exn_text_library: "exn_text (LibraryError m) = m"
  by (simp add: exn_text_def)

subsection \<open>The states used in the concrete runs are reachable\<close>

lemma reset_state_reached:
  "snd (reset_circuit model_lib initial_state 2) = reset_state"
  by (simp add: reset_circuit_def reset_circuit_try_def model_lib_def new_qcircuit_def
      initial_state_def reset_state_def)

lemma h_state_reached:
  "snd (add_gate model_lib reset_state
     \<lparr>gate_type = ''H (Hadamard)'', target_qubit = Some 0, control_qubit = None,
      req_qubits = 2\<rparr>) = h_state"
  by (simp add: add_gate_def add_gate_try_def ensure_circuit_def validate_gate_def
      apply_gate_def appended_def render_gates_def field_arg_def except_500_def
      model_lib_def instruction1_def instruction_def reset_state_def h_state_def)

lemma measured_h_state_reached:
  "snd (add_gate model_lib
     (snd (add_gate model_lib reset_state
        \<lparr>gate_type = ''Measure'', target_qubit = None, control_qubit = None,
         req_qubits = 2\<rparr>))
     \<lparr>gate_type = ''H (Hadamard)'', target_qubit = Some 0, control_qubit = None,
      req_qubits = 2\<rparr>) = measured_h_state"
  by (simp add: add_gate_def add_gate_try_def ensure_circuit_def validate_gate_def
      apply_gate_def appended_def render_gates_def field_arg_def except_500_def
      model_lib_def instruction1_def instruction_def range_py_def upto.simps
      reset_state_def measured_h_state_def)

lemma stale_state_reached:
  "snd (add_gate model_lib h_state
     \<lparr>gate_type = ''X (Pauli-X)'', target_qubit = Some 0, control_qubit = None,
      req_qubits = - 1\<rparr>) = stale_state"
  by (simp add: add_gate_def add_gate_try_def ensure_circuit_def model_lib_def
      new_qcircuit_def h_state_def stale_state_def)

subsection \<open>Python's \<open>range\<close>\<close>

lemma range_py_set: "set (range_py n) = {q. 0 \<le> q \<and> q < n}"
  by (auto simp: range_py_def)

lemma range_py_distinct: "distinct (range_py n)"
  by (simp add: range_py_def)

lemma range_py_sorted: "sorted (range_py n)"
  by (simp add: range_py_def)

subsection \<open>The measurement step of \<open>simulate_circuit\<close>\<close>

lemma simulate_without_measure:
  assumes "100 \<le> shots" "shots \<le> 10000" "circuit s = Some c"
    and "''Measure'' \<notin> set (map fst (gates s))"
    and "lib_measure lib c (range_py (qubits s)) (range_py (qubits s)) = Inr c'"
  shows "simulate_circuit lib s shots =
    (except_500 (lib_str lib) ''Failed to simulate circuit: '' (run_and_render lib c' shots),
     s\<lparr>circuit := Some c', gates := gates s @ [(''Measure'', [S ''All''])]\<rparr>)"
  using assms
  by (simp add: simulate_circuit_def simulate_circuit_try_def check_shots_def add_measurement_def)

lemma simulate_with_measure:
  assumes "''Measure'' \<in> set (map fst (gates s))"
  shows "snd (simulate_circuit lib s shots) = s"
  using assms
  by (simp add: simulate_circuit_def simulate_circuit_try_def check_shots_def add_measurement_def
      split: option.splits sum.splits prod.splits)

lemma simulate_with_measure_result:
  assumes "100 \<le> shots" "shots \<le> 10000" "circuit s = Some c"
    and "''Measure'' \<in> set (map fst (gates s))"
  shows "simulate_circuit lib s shots =
    (except_500 (lib_str lib) ''Failed to simulate circuit: '' (run_and_render lib c shots), s)"
  using assms
  by (simp add: simulate_circuit_def simulate_circuit_try_def check_shots_def add_measurement_def)

lemma simulate_gates_cases:
  "gates (snd (simulate_circuit lib s shots)) = gates s \<or>
   (''Measure'' \<notin> set (map fst (gates s)) \<and>
    gates (snd (simulate_circuit lib s shots)) = gates s @ [(''Measure'', [S ''All''])])"
  by (simp add: simulate_circuit_def simulate_circuit_try_def check_shots_def add_measurement_def
      split: option.splits sum.splits prod.splits)

lemma simulate_success_has_measure:
  assumes "fst (simulate_circuit lib s shots) = Inr v"
  shows "''Measure'' \<in> set (map fst (gates (snd (simulate_circuit lib s shots))))"
  using assms
  by (auto simp add: simulate_circuit_def simulate_circuit_try_def check_shots_def add_measurement_def
      except_500_def
      split: option.splits sum.splits prod.splits if_splits)

lemma simulate_qubits: "qubits (snd (simulate_circuit lib s shots)) = qubits s"
  by (simp add: simulate_circuit_def simulate_circuit_try_def check_shots_def
      add_measurement_def split: option.splits sum.splits prod.splits)

lemma no_measure_filter:
  "''Measure'' \<notin> set (map fst xs) \<Longrightarrow> filter (\<lambda>g. fst g = ''Measure'') xs = []"
  by (induction xs) auto

lemma run_and_render_success:
  assumes "lib_run lib c shots = Inr k" "lib_draw lib c = Inr ci"
    "lib_plot_histogram lib k = Inr hi"
  shows "run_and_render lib c shots = Inr (SimImages ci hi)"
  using assms by (simp add: run_and_render_def except_500_def)

lemma simulate_many_with_measure:
  "''Measure'' \<in> set (map fst (gates s)) \<Longrightarrow> simulate_many lib s xs = s"
  by (induction xs) (simp_all add: simulate_with_measure)

lemma simulate_many_gates:
  "gates (simulate_many lib s xs) = gates s \<or>
   gates (simulate_many lib s xs) = gates s @ [(''Measure'', [S ''All''])]"
proof (induction xs arbitrary: s)
  case Nil
  show ?case by simp
next
  case (Cons shots rest)
  let ?s1 = "snd (simulate_circuit lib s shots)"
  from simulate_gates_cases [of lib s shots] show ?case
  proof
    assume same: "gates ?s1 = gates s"
    with Cons.IH [of ?s1] show ?thesis by simp
  next
    assume app: "''Measure'' \<notin> set (map fst (gates s)) \<and>
      gates ?s1 = gates s @ [(''Measure'', [S ''All''])]"
    then have "''Measure'' \<in> set (map fst (gates ?s1))" by simp
    then have "simulate_many lib ?s1 rest = ?s1" by (rule simulate_many_with_measure)
    with app show ?thesis by simp
  qed
qed

subsection \<open>The steps of \<open>add_gate\<close>\<close>

text \<open>
  The checks of \<open>add_gate\<close> reject exactly the invalid requests.
\<close>

lemma validate_gate_invalid:
  "invalid_gate_request r \<longleftrightarrow> isl (validate_gate r)"
  by (auto simp: invalid_gate_request_def validate_gate_def split: option.splits)

lemma validate_gate_error:
  "invalid_gate_request r \<Longrightarrow> \<exists>e \<in> set invalid_gate_errors. validate_gate r = Inl e"
  by (auto simp: invalid_gate_request_def validate_gate_def invalid_gate_errors_def
      split: option.splits)

lemma add_gate_invalid_same_size:
  assumes "validate_gate r = Inl e" "circuit s \<noteq> None" "qubits s = req_qubits r"
  shows "add_gate lib s r =
           (Inl (HTTPException 500 (''Failed to add gate: '' @ lib_str lib e)), s)"
proof -
  have "ensure_circuit lib s r = (Inr (), s)"
    using assms(2,3) by (auto simp: ensure_circuit_def)
  with assms(1) show ?thesis
    by (simp add: add_gate_def add_gate_try_def except_500_def)
qed

lemma add_gate_invalid_state:
  assumes "validate_gate r = Inl e"
  shows "isl (fst (add_gate lib s r)) \<and> snd (add_gate lib s r) = snd (ensure_circuit lib s r)"
  by (cases "ensure_circuit lib s r")
     (auto simp: add_gate_def add_gate_try_def except_500_def assms split: sum.splits)

lemma ensure_circuit_gates:
  "gates (snd (ensure_circuit lib s r)) = gates s \<or> gates (snd (ensure_circuit lib s r)) = []"
  by (simp add: ensure_circuit_def split: sum.splits)

lemma apply_gate_qubits: "qubits (snd (apply_gate lib s r)) = qubits s"
  by (simp add: apply_gate_def appended_def split: option.splits sum.splits)

lemma apply_gate_gates:
  "gates (snd (apply_gate lib s r)) = gates s \<or>
   (\<exists>g. gates (snd (apply_gate lib s r)) = gates s @ [g])"
  by (simp add: apply_gate_def appended_def split: option.splits sum.splits)

lemma render_gates_state: "snd (render_gates lib s) = s"
  by (simp add: render_gates_def split: option.splits sum.splits)

lemma render_gates_snd: "render_gates lib s = (x, s') \<Longrightarrow> s' = s"
  using render_gates_state [of lib s] by simp

lemma add_gate_state:
  "snd (add_gate lib s r) =
     (case ensure_circuit lib s r of
        (Inl e, s1) \<Rightarrow> s1
      | (Inr u, s1) \<Rightarrow>
          (case validate_gate r of Inl e \<Rightarrow> s1 | Inr u \<Rightarrow> snd (apply_gate lib s1 r)))"
  by (auto simp: add_gate_def add_gate_try_def split: prod.splits sum.splits
      dest: render_gates_snd)

lemma add_gate_after_ensure:
  assumes "ensure_circuit lib s r = (Inr (), s1)"
  shows "add_gate lib s r = add_gate lib s1 r"
proof -
  have "ensure_circuit lib s1 r = (Inr (), s1)"
    using assms by (auto simp: ensure_circuit_def split: if_splits sum.splits)
  with assms show ?thesis by (simp add: add_gate_def add_gate_try_def)
qed

lemma add_gate_qubits: "qubits (snd (add_gate lib s r)) = req_qubits r"
  by (auto simp: add_gate_state ensure_circuit_def apply_gate_qubits
      split: prod.splits sum.splits if_splits)

lemma add_gate_fresh_gates:
  assumes "ensure_circuit lib s r = (Inr (), s1)" "gates s1 = []"
  shows "length (gates (snd (add_gate lib s r))) \<le> 1"
  using assms apply_gate_gates [of lib s1 r]
  by (auto simp: add_gate_state split: sum.splits)

text \<open>
  The circuit for a request of another size: when the library returns it, the request is
  served on the new, empty circuit; when the library raises, the new size is already
  stored and the old circuit and its gates stay.
\<close>

lemma add_gate_resize_constructed:
  assumes "lib_QuantumCircuit lib n n = Inr c0" "qubits s \<noteq> n" "req_qubits r = n"
  shows "add_gate lib s r = add_gate lib \<lparr>circuit = Some c0, gates = [], qubits = n\<rparr> r"
proof -
  have "ensure_circuit lib s r = (Inr (), \<lparr>circuit = Some c0, gates = [], qubits = n\<rparr>)"
    using assms by (simp add: ensure_circuit_def)
  then show ?thesis by (rule add_gate_after_ensure)
qed

lemma add_gate_constructor_raises:
  assumes "circuit s = None \<or> qubits s \<noteq> req_qubits r"
    and "lib_QuantumCircuit lib (req_qubits r) (req_qubits r) = Inl e"
  shows "add_gate lib s r =
    (Inl (HTTPException 500 (''Failed to add gate: '' @ lib_str lib e)),
     s\<lparr>qubits := req_qubits r\<rparr>)"
  using assms
  by (auto simp: add_gate_def add_gate_try_def ensure_circuit_def except_500_def)

subsection \<open>The size check of \<open>reset_circuit\<close> and \<open>load_example\<close>\<close>

lemma reset_circuit_rejects_size:
  "\<not> (1 \<le> n \<and> n \<le> 5) \<Longrightarrow>
   reset_circuit lib s n =
     (Inl (HTTPException 500 (''Failed to reset circuit: '' @
            lib_str lib (HTTPException 400 ''Qubits must be between 1 and 5''))), s)"
  by (simp add: reset_circuit_def reset_circuit_try_def except_500_def)

lemma load_example_rejects_size:
  "\<not> (1 \<le> n \<and> n \<le> 5) \<Longrightarrow>
   load_example lib s example n =
     (Inl (HTTPException 500 (''Failed to load example: '' @
            lib_str lib (HTTPException 400 ''Qubits must be between 1 and 5''))), s)"
  by (simp add: load_example_def load_example_try_def except_500_def)

section \<open>The claims\<close>

subsection \<open>C1: simulating an empty circuit\<close>




subsection \<open>C2: invalid gate requests\<close>

text \<open>
  C2, as stated, fails: an invalid request whose qubit count differs from the stored one
  empties the stored gate sequence before it is rejected.
\<close>

theorem add_gate_invalid_request_counterexample:
  "invalid_gate_request
     \<lparr>gate_type = ''Foo'', target_qubit = Some 0, control_qubit = None, req_qubits = 3\<rparr> \<and>
   gates h_state = [(''H'', [Q 0])] \<and>
   add_gate model_lib h_state
     \<lparr>gate_type = ''Foo'', target_qubit = Some 0, control_qubit = None, req_qubits = 3\<rparr> =
     (Inl (HTTPException 500 ''Failed to add gate: 400: Invalid gate type''),
      \<lparr>circuit = Some \<lparr>num_qubits = 3, num_clbits = 3, data = []\<rparr>, gates = [],
       qubits = 3\<rparr>)"
  by (simp add: invalid_gate_request_def add_gate_def add_gate_try_def ensure_circuit_def
      validate_gate_def except_500_def h_state_def model_lib_def new_qcircuit_def exn_text_400 exn_text_500 exn_text_library)

text \<open>
  C2, amended: an invalid gate request always fails and never appends a gate: the state
  after the call is the state in which the checks found it. When a circuit is stored and
  the request carries the stored qubit count, the failure is the specific exception of the
  check (inside the handler's status-500 exception) and the state is unchanged; otherwise
  the circuit was created anew before the checks, and the gate sequence afterwards is
  unchanged or empty.
\<close>

theorem add_gate_invalid_request:
  assumes "invalid_gate_request r"
  shows "\<exists>e \<in> set invalid_gate_errors.
           validate_gate r = Inl e \<and>
           isl (fst (add_gate lib s r)) \<and>
           snd (add_gate lib s r) = snd (ensure_circuit lib s r) \<and>
           (circuit s \<noteq> None \<and> qubits s = req_qubits r \<longrightarrow>
              add_gate lib s r =
                (Inl (HTTPException 500 (''Failed to add gate: '' @ lib_str lib e)), s)) \<and>
           (gates (snd (add_gate lib s r)) = gates s \<or> gates (snd (add_gate lib s r)) = [])"
proof -
  from assms obtain e where e: "e \<in> set invalid_gate_errors" "validate_gate r = Inl e"
    using validate_gate_error by blast
  note st = add_gate_invalid_state [OF e(2), of lib s]
  show ?thesis
  proof (rule bexI [OF _ e(1)], intro conjI impI)
    show "validate_gate r = Inl e" by (rule e(2))
    show "isl (fst (add_gate lib s r))" using st by simp
    show "snd (add_gate lib s r) = snd (ensure_circuit lib s r)" using st by simp
    show "gates (snd (add_gate lib s r)) = gates s \<or> gates (snd (add_gate lib s r)) = []"
      using st ensure_circuit_gates [of lib s r] by simp
  next
    assume "circuit s \<noteq> None \<and> qubits s = req_qubits r"
    then show "add_gate lib s r =
        (Inl (HTTPException 500 (''Failed to add gate: '' @ lib_str lib e)), s)"
      by (simp add: add_gate_invalid_same_size [OF e(2)])
  qed
qed

text \<open>
  C2, the amended statement for a Hadamard gate whose target equals the register size.
\<close>

theorem add_gate_invalid_request_witness:
  "invalid_gate_request
     \<lparr>gate_type = ''H (Hadamard)'', target_qubit = Some 2, control_qubit = None,
      req_qubits = 2\<rparr> \<and>
   add_gate model_lib h_state
     \<lparr>gate_type = ''H (Hadamard)'', target_qubit = Some 2, control_qubit = None,
      req_qubits = 2\<rparr> =
     (Inl (HTTPException 500 ''Failed to add gate: 400: Invalid target qubit''), h_state)"
  using add_gate_invalid_request [of
      "\<lparr>gate_type = ''H (Hadamard)'', target_qubit = Some 2, control_qubit = None,
        req_qubits = 2\<rparr>" model_lib h_state]
  by (auto simp: invalid_gate_request_def invalid_gate_errors_def validate_gate_def
      h_state_def model_lib_def exn_text_400 exn_text_500 exn_text_library)

subsection \<open>C3: the register size\<close>

text \<open>
  C3: \<open>reset_circuit\<close> and \<open>load_example\<close> reject a register of 7 qubits and leave the
  state as it was, while \<open>add_gate\<close> with a request for 7 qubits creates the circuit
  without any check of the size and succeeds.
\<close>

theorem add_gate_register_size_unchecked:
  "reset_circuit model_lib initial_state 7 =
     (Inl (HTTPException 500 ''Failed to reset circuit: 400: Qubits must be between 1 and 5''),
      initial_state) \<and>
   load_example model_lib initial_state ''Bell State (Entanglement)'' 7 =
     (Inl (HTTPException 500 ''Failed to load example: 400: Qubits must be between 1 and 5''),
      initial_state) \<and>
   add_gate model_lib initial_state
     \<lparr>gate_type = ''Measure'', target_qubit = None, control_qubit = None, req_qubits = 7\<rparr> =
     (Inr (GatesImage [(''Measure'', [S ''All''])] (Some ''circuit.png'')),
      \<lparr>circuit = Some \<lparr>num_qubits = 7, num_clbits = 7,
                        data = [(''measure'', [0, 1, 2, 3, 4, 5, 6])]\<rparr>,
       gates = [(''Measure'', [S ''All''])], qubits = 7\<rparr>)"
proof (intro conjI)
  show "reset_circuit model_lib initial_state 7 =
     (Inl (HTTPException 500 ''Failed to reset circuit: 400: Qubits must be between 1 and 5''),
      initial_state)"
    by (simp add: reset_circuit_rejects_size model_lib_def exn_text_400 exn_text_500 exn_text_library)
  show "load_example model_lib initial_state ''Bell State (Entanglement)'' 7 =
     (Inl (HTTPException 500 ''Failed to load example: 400: Qubits must be between 1 and 5''),
      initial_state)"
    by (simp add: load_example_rejects_size model_lib_def exn_text_400 exn_text_500 exn_text_library)
  show "add_gate model_lib initial_state
     \<lparr>gate_type = ''Measure'', target_qubit = None, control_qubit = None, req_qubits = 7\<rparr> =
     (Inr (GatesImage [(''Measure'', [S ''All''])] (Some ''circuit.png'')),
      \<lparr>circuit = Some \<lparr>num_qubits = 7, num_clbits = 7,
                        data = [(''measure'', [0, 1, 2, 3, 4, 5, 6])]\<rparr>,
       gates = [(''Measure'', [S ''All''])], qubits = 7\<rparr>)"
    by (simp add: add_gate_def add_gate_try_def ensure_circuit_def validate_gate_def
        apply_gate_def appended_def render_gates_def except_500_def initial_state_def
        model_lib_def new_qcircuit_def instruction_def range_py_def upto.simps)
qed

subsection \<open>C4: the effect of simulating on the stored circuit\<close>

text \<open>
  C4, as stated, fails: after a successful simulation of a circuit holding one Hadamard
  gate, the stored gate sequence has the measurement appended.
\<close>

theorem simulate_side_effect_counterexample:
  "gates h_state = [(''H'', [Q 0])] \<and>
   fst (simulate_circuit model_lib h_state 1000) =
     Inr (SimImages ''circuit.png'' ''histogram.png'') \<and>
   gates (snd (simulate_circuit model_lib h_state 1000)) =
     [(''H'', [Q 0]), (''Measure'', [S ''All''])]"
  by (simp add: simulate_circuit_def simulate_circuit_try_def check_shots_def
      add_measurement_def h_state_def model_lib_def instruction_def range_py_def upto.simps
      run_and_render_def except_500_def)

text \<open>
  C4, amended: \<open>simulate_circuit\<close> stores the measurement it adds. When the shot count is
  in range, the stored gate names hold no \<open>Measure\<close> and the library's measure call on the
  stored circuit returns, the stored gate sequence afterwards is the old one followed by
  one \<open>("Measure", "All")\<close> and the stored circuit is the one the measure call returned;
  in every other case the whole state is unchanged. The register size is never changed.
\<close>

theorem simulate_persists_measure:
  "snd (simulate_circuit lib s shots) =
     (case circuit s of
        None \<Rightarrow> s
      | Some c \<Rightarrow>
          (if 100 \<le> shots \<and> shots \<le> 10000 \<and> ''Measure'' \<notin> set (map fst (gates s))
           then
             (case lib_measure lib c (range_py (qubits s)) (range_py (qubits s)) of
                Inl e \<Rightarrow> s
              | Inr c' \<Rightarrow>
                  s\<lparr>circuit := Some c', gates := gates s @ [(''Measure'', [S ''All''])]\<rparr>)
           else s)) \<and>
   gates (snd (simulate_circuit lib s shots)) =
     (if 100 \<le> shots \<and> shots \<le> 10000 \<and> ''Measure'' \<notin> set (map fst (gates s)) \<and>
         measure_succeeds lib s
      then gates s @ [(''Measure'', [S ''All''])] else gates s) \<and>
   qubits (snd (simulate_circuit lib s shots)) = qubits s"
proof (intro conjI)
  show "snd (simulate_circuit lib s shots) =
     (case circuit s of
        None \<Rightarrow> s
      | Some c \<Rightarrow>
          (if 100 \<le> shots \<and> shots \<le> 10000 \<and> ''Measure'' \<notin> set (map fst (gates s))
           then
             (case lib_measure lib c (range_py (qubits s)) (range_py (qubits s)) of
                Inl e \<Rightarrow> s
              | Inr c' \<Rightarrow>
                  s\<lparr>circuit := Some c', gates := gates s @ [(''Measure'', [S ''All''])]\<rparr>)
           else s))"
    by (simp add: simulate_circuit_def simulate_circuit_try_def check_shots_def
        add_measurement_def split: option.splits sum.splits prod.splits)
  show "gates (snd (simulate_circuit lib s shots)) =
     (if 100 \<le> shots \<and> shots \<le> 10000 \<and> ''Measure'' \<notin> set (map fst (gates s)) \<and>
         measure_succeeds lib s
      then gates s @ [(''Measure'', [S ''All''])] else gates s)"
    by (simp add: simulate_circuit_def simulate_circuit_try_def check_shots_def
        add_measurement_def measure_succeeds_def split: option.splits sum.splits prod.splits)
  show "qubits (snd (simulate_circuit lib s shots)) = qubits s"
    by (rule simulate_qubits)
qed

text \<open>
  C4, the amended statement on four runs: a measurement is stored, the shot count is
  rejected, a measurement is already there, no circuit is stored.
\<close>

theorem simulate_persists_measure_witness:
  "snd (simulate_circuit model_lib h_state 1000) =
     \<lparr>circuit = Some \<lparr>num_qubits = 2, num_clbits = 2,
                       data = [(''h'', [0]), (''measure'', [0, 1])]\<rparr>,
      gates = [(''H'', [Q 0]), (''Measure'', [S ''All''])], qubits = 2\<rparr> \<and>
   snd (simulate_circuit model_lib h_state 99) = h_state \<and>
   snd (simulate_circuit model_lib measured_h_state 1000) = measured_h_state \<and>
   snd (simulate_circuit model_lib initial_state 1000) = initial_state"
  using simulate_persists_measure [of model_lib h_state 1000]
    simulate_persists_measure [of model_lib h_state 99]
    simulate_persists_measure [of model_lib measured_h_state 1000]
    simulate_persists_measure [of model_lib initial_state 1000]
  by (simp add: h_state_def measured_h_state_def initial_state_def model_lib_def
      instruction_def range_py_def upto.simps)

subsection \<open>C5: errors of the sub-steps\<close>

text \<open>
  C5, as stated, fails: the simulator's exception \<open>AerError\<close> reaches the caller as a
  status-500 \<open>HTTPException\<close> with a new text, and so does the status-400 exception of the
  shot-count check.
\<close>

theorem simulate_error_counterexample:
  "lib_run failing_run_lib
     \<lparr>num_qubits = 2, num_clbits = 2, data = [(''h'', [0]), (''measure'', [0, 1])]\<rparr> 1000 =
     Inl (LibraryError ''AerError'') \<and>
   fst (simulate_circuit failing_run_lib h_state 1000) =
     Inl (HTTPException 500 ''Failed to simulate circuit: AerError'') \<and>
   check_shots 5 = Inl (HTTPException 400 ''Shots must be between 100 and 10000'') \<and>
   fst (simulate_circuit model_lib h_state 5) =
     Inl (HTTPException 500
           ''Failed to simulate circuit: 400: Shots must be between 100 and 10000'')"
  by (simp add: simulate_circuit_def simulate_circuit_try_def check_shots_def
      add_measurement_def h_state_def failing_run_lib_def model_lib_def instruction_def
      range_py_def upto.simps run_and_render_def except_500_def exn_text_400 exn_text_500 exn_text_library)

text \<open>
  C5, amended: an exception raised by a library call inside \<open>simulate_circuit\<close> (the
  measure call, the run of the simulator, the drawing of the circuit, the plotting of the
  histogram) is caught and raised again as \<open>HTTPException\<close> with status 500 and the detail
  \<open>Failed to simulate circuit: \<close> followed by the text of the exception; for the drawing
  and the plotting the text is that of the status-500 exception which
  \<open>circuit_to_base64\<close> raised in its place.
\<close>

theorem simulate_rewraps_library_errors:
  assumes "100 \<le> shots" "shots \<le> 10000" "circuit s = Some c"
  shows "(''Measure'' \<notin> set (map fst (gates s)) \<and>
          lib_measure lib c (range_py (qubits s)) (range_py (qubits s)) = Inl e \<longrightarrow>
            simulate_circuit lib s shots =
              (Inl (HTTPException 500 (''Failed to simulate circuit: '' @ lib_str lib e)), s)) \<and>
         (add_measurement lib s c = (Inr c1, s1) \<and> lib_run lib c1 shots = Inl e \<longrightarrow>
            simulate_circuit lib s shots =
              (Inl (HTTPException 500 (''Failed to simulate circuit: '' @ lib_str lib e)), s1)) \<and>
         (add_measurement lib s c = (Inr c1, s1) \<and> lib_run lib c1 shots = Inr k \<and>
          lib_draw lib c1 = Inl e \<longrightarrow>
            simulate_circuit lib s shots =
              (Inl (HTTPException 500 (''Failed to simulate circuit: '' @
                     lib_str lib (HTTPException 500 (''Failed to generate image: '' @
                       lib_str lib e)))), s1)) \<and>
         (add_measurement lib s c = (Inr c1, s1) \<and> lib_run lib c1 shots = Inr k \<and>
          lib_draw lib c1 = Inr ci \<and> lib_plot_histogram lib k = Inl e \<longrightarrow>
            simulate_circuit lib s shots =
              (Inl (HTTPException 500 (''Failed to simulate circuit: '' @
                     lib_str lib (HTTPException 500 (''Failed to generate image: '' @
                       lib_str lib e)))), s1))"
  using assms
  by (simp add: simulate_circuit_def simulate_circuit_try_def check_shots_def
      add_measurement_def run_and_render_def except_500_def)

text \<open>
  C5, the amended statement with a library whose measure call, run, drawing or plotting
  raises.
\<close>

theorem simulate_rewraps_library_errors_witness:
  "simulate_circuit (model_lib\<lparr>lib_measure := (\<lambda>c qs cs. Inl (LibraryError ''CircuitError''))\<rparr>)
     h_state 1000 =
     (Inl (HTTPException 500 ''Failed to simulate circuit: CircuitError''), h_state) \<and>
   simulate_circuit failing_run_lib h_state 1000 =
     (Inl (HTTPException 500 ''Failed to simulate circuit: AerError''),
      h_state\<lparr>circuit := Some \<lparr>num_qubits = 2, num_clbits = 2,
                               data = [(''h'', [0]), (''measure'', [0, 1])]\<rparr>,
              gates := [(''H'', [Q 0]), (''Measure'', [S ''All''])]\<rparr>) \<and>
   simulate_circuit (model_lib\<lparr>lib_draw := (\<lambda>c. Inl (LibraryError ''ValueError''))\<rparr>)
     h_state 1000 =
     (Inl (HTTPException 500
            ''Failed to simulate circuit: 500: Failed to generate image: ValueError''),
      h_state\<lparr>circuit := Some \<lparr>num_qubits = 2, num_clbits = 2,
                               data = [(''h'', [0]), (''measure'', [0, 1])]\<rparr>,
              gates := [(''H'', [Q 0]), (''Measure'', [S ''All''])]\<rparr>) \<and>
   simulate_circuit
     (model_lib\<lparr>lib_plot_histogram := (\<lambda>k. Inl (LibraryError ''VisualizationError''))\<rparr>)
     h_state 1000 =
     (Inl (HTTPException 500
            ''Failed to simulate circuit: 500: Failed to generate image: VisualizationError''),
      h_state\<lparr>circuit := Some \<lparr>num_qubits = 2, num_clbits = 2,
                               data = [(''h'', [0]), (''measure'', [0, 1])]\<rparr>,
              gates := [(''H'', [Q 0]), (''Measure'', [S ''All''])]\<rparr>)"
  using simulate_rewraps_library_errors [of 1000 h_state
      "\<lparr>num_qubits = 2, num_clbits = 2, data = [(''h'', [0])]\<rparr>"
      "model_lib\<lparr>lib_measure := (\<lambda>c qs cs. Inl (LibraryError ''CircuitError''))\<rparr>"
      "LibraryError ''CircuitError''"]
    simulate_rewraps_library_errors [of 1000 h_state
      "\<lparr>num_qubits = 2, num_clbits = 2, data = [(''h'', [0])]\<rparr>"
      failing_run_lib "LibraryError ''AerError''"
      "\<lparr>num_qubits = 2, num_clbits = 2, data = [(''h'', [0]), (''measure'', [0, 1])]\<rparr>"
      "h_state\<lparr>circuit := Some \<lparr>num_qubits = 2, num_clbits = 2,
                               data = [(''h'', [0]), (''measure'', [0, 1])]\<rparr>,
              gates := [(''H'', [Q 0]), (''Measure'', [S ''All''])]\<rparr>"]
    simulate_rewraps_library_errors [of 1000 h_state
      "\<lparr>num_qubits = 2, num_clbits = 2, data = [(''h'', [0])]\<rparr>"
      "model_lib\<lparr>lib_draw := (\<lambda>c. Inl (LibraryError ''ValueError''))\<rparr>"
      "LibraryError ''ValueError''"
      "\<lparr>num_qubits = 2, num_clbits = 2, data = [(''h'', [0]), (''measure'', [0, 1])]\<rparr>"
      "h_state\<lparr>circuit := Some \<lparr>num_qubits = 2, num_clbits = 2,
                               data = [(''h'', [0]), (''measure'', [0, 1])]\<rparr>,
              gates := [(''H'', [Q 0]), (''Measure'', [S ''All''])]\<rparr>"
      "[(''00'', 1000)]"]
    simulate_rewraps_library_errors [of 1000 h_state
      "\<lparr>num_qubits = 2, num_clbits = 2, data = [(''h'', [0])]\<rparr>"
      "model_lib\<lparr>lib_plot_histogram := (\<lambda>k. Inl (LibraryError ''VisualizationError''))\<rparr>"
      "LibraryError ''VisualizationError''"
      "\<lparr>num_qubits = 2, num_clbits = 2, data = [(''h'', [0]), (''measure'', [0, 1])]\<rparr>"
      "h_state\<lparr>circuit := Some \<lparr>num_qubits = 2, num_clbits = 2,
                               data = [(''h'', [0]), (''measure'', [0, 1])]\<rparr>,
              gates := [(''H'', [Q 0]), (''Measure'', [S ''All''])]\<rparr>"
      "[(''00'', 1000)]" "''circuit.png''"]
  by (simp add: add_measurement_def h_state_def failing_run_lib_def model_lib_def
      instruction_def range_py_def upto.simps exn_text_400 exn_text_500 exn_text_library)

subsection \<open>C6: the shot count\<close>

text \<open>
  C6: for a shot count below 100 or above 10000 (so for every count below 1) the handler
  raises \<open>Shots must be between 100 and 10000\<close> before anything else and fails with that
  message inside its status-500 exception, with the state unchanged and no library call
  made. For a count from 100 to 10000 the check passes: the handler goes on with the
  check for a circuit and the simulation, so it reports a missing circuit as such and
  returns the two images when the library calls return.
\<close>

theorem simulate_shots_check:
  "(shots < 100 \<or> 10000 < shots \<longrightarrow>
      check_shots shots = Inl (HTTPException 400 ''Shots must be between 100 and 10000'') \<and>
      simulate_circuit_try lib s shots =
        (Inl (HTTPException 400 ''Shots must be between 100 and 10000''), s) \<and>
      simulate_circuit lib s shots =
        (Inl (HTTPException 500 (''Failed to simulate circuit: '' @
               lib_str lib (HTTPException 400 ''Shots must be between 100 and 10000''))), s)) \<and>
   (100 \<le> shots \<and> shots \<le> 10000 \<longrightarrow>
      check_shots shots = Inr () \<and>
      simulate_circuit_try lib s shots =
        (case circuit s of
           None \<Rightarrow> (Inl (HTTPException 400 ''No circuit defined''), s)
         | Some c \<Rightarrow>
             (case add_measurement lib s c of
                (Inl e, s1) \<Rightarrow> (Inl e, s1)
              | (Inr c1, s1) \<Rightarrow> (run_and_render lib c1 shots, s1))) \<and>
      (circuit s = None \<longrightarrow>
         simulate_circuit lib s shots =
           (Inl (HTTPException 500 (''Failed to simulate circuit: '' @
                  lib_str lib (HTTPException 400 ''No circuit defined''))), s)) \<and>
      (circuit s = Some c \<and> add_measurement lib s c = (Inr c1, s1) \<and>
       lib_run lib c1 shots = Inr k \<and> lib_draw lib c1 = Inr ci \<and>
       lib_plot_histogram lib k = Inr hi \<longrightarrow>
         simulate_circuit lib s shots = (Inr (SimImages ci hi), s1)))"
proof (intro conjI impI)
  assume "shots < 100 \<or> 10000 < shots"
  then show rejected:
    "check_shots shots = Inl (HTTPException 400 ''Shots must be between 100 and 10000'')"
    by (auto simp: check_shots_def)
  show "simulate_circuit_try lib s shots =
      (Inl (HTTPException 400 ''Shots must be between 100 and 10000''), s)"
    by (simp add: simulate_circuit_try_def rejected)
  show "simulate_circuit lib s shots =
      (Inl (HTTPException 500 (''Failed to simulate circuit: '' @
             lib_str lib (HTTPException 400 ''Shots must be between 100 and 10000''))), s)"
    by (simp add: simulate_circuit_def simulate_circuit_try_def rejected except_500_def)
next
  assume "100 \<le> shots \<and> shots \<le> 10000"
  then show passed: "check_shots shots = Inr ()"
    by (simp add: check_shots_def)
  show "simulate_circuit_try lib s shots =
      (case circuit s of
         None \<Rightarrow> (Inl (HTTPException 400 ''No circuit defined''), s)
       | Some c \<Rightarrow>
           (case add_measurement lib s c of
              (Inl e, s1) \<Rightarrow> (Inl e, s1)
            | (Inr c1, s1) \<Rightarrow> (run_and_render lib c1 shots, s1)))"
    by (simp add: simulate_circuit_try_def passed)
  {
    assume "circuit s = None"
    then show "simulate_circuit lib s shots =
        (Inl (HTTPException 500 (''Failed to simulate circuit: '' @
               lib_str lib (HTTPException 400 ''No circuit defined''))), s)"
      by (simp add: simulate_circuit_def simulate_circuit_try_def passed except_500_def)
  }
  {
    assume "circuit s = Some c \<and> add_measurement lib s c = (Inr c1, s1) \<and>
       lib_run lib c1 shots = Inr k \<and> lib_draw lib c1 = Inr ci \<and>
       lib_plot_histogram lib k = Inr hi"
    then show "simulate_circuit lib s shots = (Inr (SimImages ci hi), s1)"
      by (simp add: simulate_circuit_def simulate_circuit_try_def passed
          run_and_render_success except_500_def)
  }
qed

text \<open>
  C6 at the shot counts 0 and 10001, which are rejected, and 100 and 10000, which pass:
  the first on the initial state, where the missing circuit is reported, the second on
  the circuit holding a Hadamard gate, where the images are returned.
\<close>

theorem simulate_shots_check_witness:
  "simulate_circuit model_lib h_state 0 =
     (Inl (HTTPException 500
            ''Failed to simulate circuit: 400: Shots must be between 100 and 10000''),
      h_state) \<and>
   simulate_circuit model_lib h_state 10001 =
     (Inl (HTTPException 500
            ''Failed to simulate circuit: 400: Shots must be between 100 and 10000''),
      h_state) \<and>
   simulate_circuit model_lib initial_state 100 =
     (Inl (HTTPException 500 ''Failed to simulate circuit: 400: No circuit defined''),
      initial_state) \<and>
   simulate_circuit model_lib h_state 10000 =
     (Inr (SimImages ''circuit.png'' ''histogram.png''),
      \<lparr>circuit = Some \<lparr>num_qubits = 2, num_clbits = 2,
                        data = [(''h'', [0]), (''measure'', [0, 1])]\<rparr>,
       gates = [(''H'', [Q 0]), (''Measure'', [S ''All''])], qubits = 2\<rparr>)"
  using simulate_shots_check [of 0 model_lib h_state]
    simulate_shots_check [of 10001 model_lib h_state]
    simulate_shots_check [of 100 model_lib initial_state]
    simulate_shots_check [of 10000 model_lib h_state
      "\<lparr>num_qubits = 2, num_clbits = 2, data = [(''h'', [0])]\<rparr>"
      "\<lparr>num_qubits = 2, num_clbits = 2, data = [(''h'', [0]), (''measure'', [0, 1])]\<rparr>"
      "\<lparr>circuit = Some \<lparr>num_qubits = 2, num_clbits = 2,
                         data = [(''h'', [0]), (''measure'', [0, 1])]\<rparr>,
        gates = [(''H'', [Q 0]), (''Measure'', [S ''All''])], qubits = 2\<rparr>"
      "[(''00'', 10000)]" "''circuit.png''" "''histogram.png''"]
  by (simp add: add_measurement_def h_state_def initial_state_def model_lib_def
      instruction_def range_py_def upto.simps exn_text_400)

subsection \<open>C7: the implicit measurement\<close>

text \<open>
  C7, as stated, fails twice. A stored sequence of a measurement followed by a Hadamard
  gate holds a \<open>Measure\<close>, so nothing is added and the sequence that is simulated ends
  with the Hadamard gate. And in the state that a refused request for \<open>-1\<close> qubits leaves
  behind, the stored sequence holds no \<open>Measure\<close> and the circuit has two qubits, but the
  measure call receives \<open>range(-1)\<close>, the empty list: the entry is appended while no qubit
  is measured, and the run gives no counts.
\<close>

theorem simulate_appends_measure_counterexample:
  "''Measure'' \<in> set (map fst (gates measured_h_state)) \<and>
   last (gates measured_h_state) = (''H'', [Q 0]) \<and>
   simulate_circuit model_lib measured_h_state 1000 =
     (Inr (SimImages ''circuit.png'' ''histogram.png''), measured_h_state) \<and>
   ''Measure'' \<notin> set (map fst (gates stale_state)) \<and>
   range_py (qubits stale_state) = [] \<and>
   simulate_circuit model_lib stale_state 1000 =
     (Inl (HTTPException 500 ''Failed to simulate circuit: QiskitError''),
      \<lparr>circuit = Some \<lparr>num_qubits = 2, num_clbits = 2,
                        data = [(''h'', [0]), (''measure'', [])]\<rparr>,
       gates = [(''H'', [Q 0]), (''Measure'', [S ''All''])], qubits = - 1\<rparr>)"
  by (simp add: simulate_circuit_def simulate_circuit_try_def check_shots_def
      add_measurement_def measured_h_state_def stale_state_def model_lib_def instruction_def
      range_py_def upto.simps run_and_render_def except_500_def exn_text_library)

text \<open>
  C7, amended: in a simulation that passes its checks (a shot count in range, a circuit
  stored), when the stored gate names hold no \<open>Measure\<close> the library's measure is called
  on the stored circuit with \<open>range(q)\<close> as the list of qubits and as the list of
  classical bits, \<open>q\<close> being the stored qubit count: each index from \<open>0\<close> to \<open>q - 1\<close>
  once, in order. When that call returns, exactly one \<open>("Measure", "All")\<close> entry is
  appended, which is then the last one, the circuit it returned is stored, and the
  simulator runs on that circuit. When a \<open>Measure\<close> is present nothing is added: the state
  is unchanged and the simulator runs on the stored circuit as it is.
\<close>

theorem simulate_appends_measure:
  assumes "100 \<le> shots" "shots \<le> 10000" "circuit s = Some c"
  shows "set (range_py (qubits s)) = {i. 0 \<le> i \<and> i < qubits s} \<and>
         distinct (range_py (qubits s)) \<and> sorted (range_py (qubits s)) \<and>
         (''Measure'' \<notin> set (map fst (gates s)) \<and>
          lib_measure lib c (range_py (qubits s)) (range_py (qubits s)) = Inr c' \<longrightarrow>
            simulate_circuit lib s shots =
              (except_500 (lib_str lib) ''Failed to simulate circuit: ''
                 (run_and_render lib c' shots),
               s\<lparr>circuit := Some c', gates := gates s @ [(''Measure'', [S ''All''])]\<rparr>) \<and>
            last (gates (snd (simulate_circuit lib s shots))) = (''Measure'', [S ''All'']) \<and>
            length (filter (\<lambda>g. fst g = ''Measure'')
                      (gates (snd (simulate_circuit lib s shots)))) = 1) \<and>
         (''Measure'' \<in> set (map fst (gates s)) \<longrightarrow>
            simulate_circuit lib s shots =
              (except_500 (lib_str lib) ''Failed to simulate circuit: ''
                 (run_and_render lib c shots), s))"
proof (intro conjI impI)
  show "set (range_py (qubits s)) = {i. 0 \<le> i \<and> i < qubits s}"
    by (rule range_py_set)
  show "distinct (range_py (qubits s))"
    by (rule range_py_distinct)
  show "sorted (range_py (qubits s))"
    by (rule range_py_sorted)
next
  assume h: "''Measure'' \<notin> set (map fst (gates s)) \<and>
          lib_measure lib c (range_py (qubits s)) (range_py (qubits s)) = Inr c'"
  then have eq: "simulate_circuit lib s shots =
              (except_500 (lib_str lib) ''Failed to simulate circuit: ''
                 (run_and_render lib c' shots),
               s\<lparr>circuit := Some c', gates := gates s @ [(''Measure'', [S ''All''])]\<rparr>)"
    using assms by (simp add: simulate_without_measure)
  show "simulate_circuit lib s shots =
              (except_500 (lib_str lib) ''Failed to simulate circuit: ''
                 (run_and_render lib c' shots),
               s\<lparr>circuit := Some c', gates := gates s @ [(''Measure'', [S ''All''])]\<rparr>)"
    by (rule eq)
  show "last (gates (snd (simulate_circuit lib s shots))) = (''Measure'', [S ''All''])"
    by (simp add: eq)
  show "length (filter (\<lambda>g. fst g = ''Measure'')
                      (gates (snd (simulate_circuit lib s shots)))) = 1"
    using h by (simp add: eq no_measure_filter)
next
  assume "''Measure'' \<in> set (map fst (gates s))"
  then show "simulate_circuit lib s shots =
              (except_500 (lib_str lib) ''Failed to simulate circuit: ''
                 (run_and_render lib c shots), s)"
    using assms by (simp add: simulate_with_measure_result)
qed

text \<open>
  C7, the amended statement on the circuit holding one Hadamard gate, simulated twice,
  and on the circuit holding a measurement followed by a Hadamard gate.
\<close>

theorem simulate_appends_measure_witness:
  "simulate_circuit model_lib h_state 1000 =
     (Inr (SimImages ''circuit.png'' ''histogram.png''),
      h_state\<lparr>circuit := Some \<lparr>num_qubits = 2, num_clbits = 2,
                               data = [(''h'', [0]), (''measure'', [0, 1])]\<rparr>,
              gates := [(''H'', [Q 0]), (''Measure'', [S ''All''])]\<rparr>) \<and>
   simulate_circuit model_lib
     (h_state\<lparr>circuit := Some \<lparr>num_qubits = 2, num_clbits = 2,
                               data = [(''h'', [0]), (''measure'', [0, 1])]\<rparr>,
              gates := [(''H'', [Q 0]), (''Measure'', [S ''All''])]\<rparr>) 1000 =
     (Inr (SimImages ''circuit.png'' ''histogram.png''),
      h_state\<lparr>circuit := Some \<lparr>num_qubits = 2, num_clbits = 2,
                               data = [(''h'', [0]), (''measure'', [0, 1])]\<rparr>,
              gates := [(''H'', [Q 0]), (''Measure'', [S ''All''])]\<rparr>) \<and>
   simulate_circuit model_lib measured_h_state 1000 =
     (Inr (SimImages ''circuit.png'' ''histogram.png''), measured_h_state) \<and>
   set (range_py 2) = {0, 1}"
  using simulate_appends_measure [of 1000 h_state
      "\<lparr>num_qubits = 2, num_clbits = 2, data = [(''h'', [0])]\<rparr>" model_lib
      "\<lparr>num_qubits = 2, num_clbits = 2, data = [(''h'', [0]), (''measure'', [0, 1])]\<rparr>"]
    simulate_appends_measure [of 1000
      "h_state\<lparr>circuit := Some \<lparr>num_qubits = 2, num_clbits = 2,
                               data = [(''h'', [0]), (''measure'', [0, 1])]\<rparr>,
              gates := [(''H'', [Q 0]), (''Measure'', [S ''All''])]\<rparr>"
      "\<lparr>num_qubits = 2, num_clbits = 2, data = [(''h'', [0]), (''measure'', [0, 1])]\<rparr>"
      model_lib]
    simulate_appends_measure [of 1000 measured_h_state
      "\<lparr>num_qubits = 2, num_clbits = 2, data = [(''measure'', [0, 1]), (''h'', [0])]\<rparr>"
      model_lib]
  by (simp add: h_state_def measured_h_state_def model_lib_def instruction_def range_py_def
      upto.simps run_and_render_def except_500_def)

subsection \<open>C8: changing the register size\<close>

text \<open>
  C8: a request to \<open>add_gate\<close> for \<open>-1\<close> qubits on the two-qubit circuit holding a
  Hadamard gate stores the new size, the library refuses to build the circuit, and the
  request fails with the old circuit and its gate kept under the new size. The same size
  given to \<open>reset_circuit\<close> is refused by its check and leaves the state as it was.
\<close>

theorem add_gate_resize_keeps_old_circuit:
  "add_gate model_lib h_state
     \<lparr>gate_type = ''X (Pauli-X)'', target_qubit = Some 0, control_qubit = None,
      req_qubits = - 1\<rparr> =
     (Inl (HTTPException 500 ''Failed to add gate: CircuitError''),
      \<lparr>circuit = Some \<lparr>num_qubits = 2, num_clbits = 2, data = [(''h'', [0])]\<rparr>,
       gates = [(''H'', [Q 0])], qubits = - 1\<rparr>) \<and>
   reset_circuit model_lib h_state (- 1) =
     (Inl (HTTPException 500
            ''Failed to reset circuit: 400: Qubits must be between 1 and 5''), h_state)"
proof (intro conjI)
  have raises: "lib_QuantumCircuit model_lib (- 1) (- 1) = Inl (LibraryError ''CircuitError'')"
    by (simp add: model_lib_def new_qcircuit_def)
  have str: "lib_str model_lib (LibraryError ''CircuitError'') = ''CircuitError''"
    by (simp add: model_lib_def exn_text_library)
  show "add_gate model_lib h_state
     \<lparr>gate_type = ''X (Pauli-X)'', target_qubit = Some 0, control_qubit = None,
      req_qubits = - 1\<rparr> =
     (Inl (HTTPException 500 ''Failed to add gate: CircuitError''),
      \<lparr>circuit = Some \<lparr>num_qubits = 2, num_clbits = 2, data = [(''h'', [0])]\<rparr>,
       gates = [(''H'', [Q 0])], qubits = - 1\<rparr>)"
    using add_gate_constructor_raises [of h_state
        "\<lparr>gate_type = ''X (Pauli-X)'', target_qubit = Some 0, control_qubit = None,
          req_qubits = - 1\<rparr>" model_lib "LibraryError ''CircuitError''"] raises str
    by (simp add: h_state_def)
  show "reset_circuit model_lib h_state (- 1) =
     (Inl (HTTPException 500
            ''Failed to reset circuit: 400: Qubits must be between 1 and 5''), h_state)"
    by (simp add: reset_circuit_rejects_size model_lib_def exn_text_400)
qed

subsection \<open>C9: the qubit fields of a \<open>Measure\<close> request\<close>



subsection \<open>C10: repeated simulations\<close>

text \<open>
  C10: after a successful simulation the stored gate names hold a \<open>Measure\<close>, every later
  simulation (one or many, with any shot counts) leaves the state as it is, and over any
  sequence of simulations from any state the measurement is appended at most once.
\<close>

theorem simulate_measure_idempotent:
  assumes "fst (simulate_circuit lib s shots) = Inr v"
  shows "''Measure'' \<in> set (map fst (gates (snd (simulate_circuit lib s shots)))) \<and>
         snd (simulate_circuit lib (snd (simulate_circuit lib s shots)) shots') =
           snd (simulate_circuit lib s shots) \<and>
         simulate_many lib (snd (simulate_circuit lib s shots)) xs =
           snd (simulate_circuit lib s shots) \<and>
         (gates (simulate_many lib s ys) = gates s \<or>
          gates (simulate_many lib s ys) = gates s @ [(''Measure'', [S ''All''])])"
  using simulate_success_has_measure [OF assms] simulate_many_gates [of lib s ys]
  by (simp add: simulate_with_measure simulate_many_with_measure)

text \<open>
  C10 on the circuit holding one Hadamard gate: one simulation, then three more.
\<close>

theorem simulate_measure_idempotent_witness:
  "fst (simulate_circuit model_lib h_state 1000) =
     Inr (SimImages ''circuit.png'' ''histogram.png'') \<and>
   gates (snd (simulate_circuit model_lib h_state 1000)) =
     [(''H'', [Q 0]), (''Measure'', [S ''All''])] \<and>
   simulate_many model_lib (snd (simulate_circuit model_lib h_state 1000)) [100, 5000, 7] =
     snd (simulate_circuit model_lib h_state 1000)"
proof -
  have r: "simulate_circuit model_lib h_state 1000 =
     (Inr (SimImages ''circuit.png'' ''histogram.png''),
      h_state\<lparr>circuit := Some \<lparr>num_qubits = 2, num_clbits = 2,
                               data = [(''h'', [0]), (''measure'', [0, 1])]\<rparr>,
              gates := [(''H'', [Q 0]), (''Measure'', [S ''All''])]\<rparr>)"
    by (simp add: simulate_circuit_def simulate_circuit_try_def check_shots_def
        add_measurement_def h_state_def model_lib_def instruction_def range_py_def upto.simps
        run_and_render_def except_500_def)
  then have "fst (simulate_circuit model_lib h_state 1000) =
     Inr (SimImages ''circuit.png'' ''histogram.png'')" by simp
  from simulate_measure_idempotent [OF this, of 1000 "[100, 5000, 7]" "[]"] r
  show ?thesis by (simp add: h_state_def)
qed

end
